theory Spec2Isabelle
  imports Main
begin

section \<open>The Result class of Result.hpp\<close>

subsection \<open>Exceptions\<close>

text \<open>
  Every \<^verbatim>\<open>throw\<close> of the header is a value. Three kinds of exception can leave a member
  function: the \<^verbatim>\<open>std::logic_error\<close> of the three assertions (with its message), the
  \<^verbatim>\<open>boost::bad_get\<close> of \<^verbatim>\<open>boost::get\<close>, and an object thrown by \<^verbatim>\<open>unwrap\<close>
  (the stored error), by \<^verbatim>\<open>expect\<close> (the caller's error) or by a caller's function.
  A computation that may throw returns \<open>'x exn + 'a\<close>, with \<open>Inl\<close> for the exception.
\<close>

datatype 'x exn = logic_error string | bad_get | thrown 'x

subsection \<open>The variant of Boost, as far as the header uses it\<close>

text \<open>
  \<^verbatim>\<open>boost::variant<return_type, error_type>\<close> holds a value of exactly one of its two
  bounded types. \<^verbatim>\<open>which()\<close> is the zero-based index of the type held, \<^verbatim>\<open>empty()\<close> is
  \<^verbatim>\<open>false\<close> for every variant (the library's never-empty guarantee), and
  \<^verbatim>\<open>boost::get<T>\<close> gives the content when it is of type \<^verbatim>\<open>T\<close> and throws
  \<^verbatim>\<open>boost::bad_get\<close> otherwise. Boost is not part of the repository; these four
  definitions follow its documentation.
\<close>

datatype ('r, 'e) variant = Held_return 'r | Held_error 'e

fun which :: "('r, 'e) variant \<Rightarrow> int" where
  "which (Held_return v) = 0"
| "which (Held_error e) = 1"

definition empty_variant :: "('r, 'e) variant \<Rightarrow> bool" where
  "empty_variant x = False"

fun get_return_type :: "('r, 'e) variant \<Rightarrow> 'x exn + 'r" where
  "get_return_type (Held_return v) = Inr v"
| "get_return_type (Held_error e) = Inl bad_get"

fun get_error_type :: "('r, 'e) variant \<Rightarrow> 'x exn + 'e" where
  "get_error_type (Held_return v) = Inl bad_get"
| "get_error_type (Held_error e) = Inr e"

subsection \<open>The class\<close>

text \<open>The class has one data member, \<^verbatim>\<open>internal_\<close>.\<close>

record ('r, 'e) Result =
  internal :: "('r, 'e) variant"

text \<open>
  The two factories call the private constructors, which move their argument into the
  variant. Moving or copying a payload is taken not to throw.
\<close>

definition Ok :: "'r \<Rightarrow> ('r, 'e) Result" where
  "Ok ret = \<lparr>internal = Held_return ret\<rparr>"

definition Err :: "'e \<Rightarrow> ('r, 'e) Result" where
  "Err err = \<lparr>internal = Held_error err\<rparr>"

subsection \<open>Const members\<close>

text \<open>
  A member function declared \<^verbatim>\<open>const\<close> cannot assign to \<^verbatim>\<open>internal_\<close> (the class has no
  \<^verbatim>\<open>mutable\<close> member and no cast): it is a function of the object that returns a
  value or an exception, and no new object.
\<close>

definition is_ok :: "('r, 'e) Result \<Rightarrow> bool" where
  "is_ok this = (which (internal this) = 0)"

definition is_error :: "('r, 'e) Result \<Rightarrow> bool" where
  "is_error this = (which (internal this) = 1)"

definition expect_valid_state :: "('r, 'e) Result \<Rightarrow> 'x exn + unit" where
  "expect_valid_state this =
     (if empty_variant (internal this)
      then Inl (logic_error ''this object is not in a valid state'')
      else Inr ())"

definition expect_return :: "('r, 'e) Result \<Rightarrow> 'x exn + unit" where
  "expect_return this =
     (if is_error this
      then Inl (logic_error ''attempt to read the return of an error'')
      else Inr ())"

definition expect_error :: "('r, 'e) Result \<Rightarrow> 'x exn + unit" where
  "expect_error this =
     (if is_ok this
      then Inl (logic_error ''attempt to read the error of a valid result'')
      else Inr ())"

definition get_return :: "('r, 'e) Result \<Rightarrow> 'x exn + 'r" where
  "get_return this =
     (case expect_valid_state this of
        Inl x \<Rightarrow> Inl x
      | Inr u \<Rightarrow>
          (case expect_return this of
             Inl x \<Rightarrow> Inl x
           | Inr u' \<Rightarrow> get_return_type (internal this)))"

definition get_error :: "('r, 'e) Result \<Rightarrow> 'x exn + 'e" where
  "get_error this =
     (case expect_valid_state this of
        Inl x \<Rightarrow> Inl x
      | Inr u \<Rightarrow>
          (case expect_error this of
             Inl x \<Rightarrow> Inl x
           | Inr u' \<Rightarrow> get_error_type (internal this)))"

subsection \<open>Non-const members without a function argument\<close>

text \<open>
  A non-const member function may change the object, so it returns the object as it
  is after the call, next to its outcome: \<open>(outcome, this')\<close>.
\<close>

definition unwrap :: "('r, 'e) Result \<Rightarrow> ('e exn + 'r) \<times> ('r, 'e) Result" where
  "unwrap this =
     (if is_error this
      then (case get_error this of
              Inl x \<Rightarrow> (Inl x, this)
            | Inr e \<Rightarrow> (Inl (thrown e), this))
      else (get_return this, this))"

definition expect :: "('r, 'e) Result \<Rightarrow> 'ee \<Rightarrow> ('ee exn + 'r) \<times> ('r, 'e) Result" where
  "expect this err =
     (case expect_valid_state this of
        Inl x \<Rightarrow> (Inl x, this)
      | Inr u \<Rightarrow>
          (if is_error this then (Inl (thrown err), this)
           else (get_return this, this)))"

subsection \<open>Non-const members with a function argument\<close>

text \<open>
  The function a caller passes is any callable of C++: it may change the caller's state
  and it may throw. It is modelled as \<open>f :: 'a \<Rightarrow> 'w \<Rightarrow> ('x exn + 'b) \<times> 'w\<close>: from its
  argument and the state \<open>w\<close> of the caller's world before the call, to its outcome and
  the world after it. A function that is never called leaves the world as it was, whatever
  the function is. The world is everything but the receiver: a function that holds a
  reference to the very object it is passed to is outside this model.

  A combinator returns \<open>(outcome, this', w')\<close>: what it returns or throws, the receiver
  after the call, and the world after the call. The argument of \<open>f\<close> is evaluated (and
  may throw) before \<open>f\<close> is called.
\<close>

definition map_res ::
  "('r, 'e) Result \<Rightarrow> ('r \<Rightarrow> 'w \<Rightarrow> ('x exn + 'rr) \<times> 'w) \<Rightarrow> 'w
    \<Rightarrow> ('x exn + ('rr, 'e) Result) \<times> ('r, 'e) Result \<times> 'w" where
  "map_res this f w =
     (if is_error this
      then (case get_error this of
              Inl x \<Rightarrow> (Inl x, this, w)
            | Inr e \<Rightarrow> (Inr (Err e), this, w))
      else (case get_return this of
              Inl x \<Rightarrow> (Inl x, this, w)
            | Inr v \<Rightarrow>
                (case f v w of
                   (Inl x, w') \<Rightarrow> (Inl x, this, w')
                 | (Inr y, w') \<Rightarrow> (Inr (Ok y), this, w'))))"

definition map_err ::
  "('r, 'e) Result \<Rightarrow> ('e \<Rightarrow> 'w \<Rightarrow> ('x exn + 'ee) \<times> 'w) \<Rightarrow> 'w
    \<Rightarrow> ('x exn + ('r, 'ee) Result) \<times> ('r, 'e) Result \<times> 'w" where
  "map_err this f w =
     (if is_ok this
      then (case get_return this of
              Inl x \<Rightarrow> (Inl x, this, w)
            | Inr v \<Rightarrow> (Inr (Ok v), this, w))
      else (case get_error this of
              Inl x \<Rightarrow> (Inl x, this, w)
            | Inr e \<Rightarrow>
                (case f e w of
                   (Inl x, w') \<Rightarrow> (Inl x, this, w')
                 | (Inr y, w') \<Rightarrow> (Inr (Err y), this, w'))))"

definition and_then ::
  "('r, 'e) Result \<Rightarrow> ('r \<Rightarrow> 'w \<Rightarrow> ('x exn + ('rr, 'e) Result) \<times> 'w) \<Rightarrow> 'w
    \<Rightarrow> ('x exn + ('rr, 'e) Result) \<times> ('r, 'e) Result \<times> 'w" where
  "and_then this f w =
     (if is_error this
      then (case get_error this of
              Inl x \<Rightarrow> (Inl x, this, w)
            | Inr e \<Rightarrow> (Inr (Err e), this, w))
      else (case get_return this of
              Inl x \<Rightarrow> (Inl x, this, w)
            | Inr v \<Rightarrow> (case f v w of (out, w') \<Rightarrow> (out, this, w'))))"

definition or_else ::
  "('r, 'e) Result \<Rightarrow> ('r \<Rightarrow> 'w \<Rightarrow> ('x exn + ('r, 'e) Result) \<times> 'w) \<Rightarrow> 'w
    \<Rightarrow> ('x exn + ('r, 'e) Result) \<times> ('r, 'e) Result \<times> 'w" where
  "or_else this f w =
     (if is_ok this
      then (case get_return this of
              Inl x \<Rightarrow> (Inl x, this, w)
            | Inr v \<Rightarrow> (Inr (Ok v), this, w))
      else (case get_return this of
              Inl x \<Rightarrow> (Inl x, this, w)
            | Inr v \<Rightarrow> (case f v w of (out, w') \<Rightarrow> (out, this, w'))))"

text \<open>
  \<open>or_else\<close> above is the member template at \<^verbatim>\<open>RR = return_type\<close>. At another
  \<^verbatim>\<open>RR\<close> the only difference is on the ok branch, where \<^verbatim>\<open>Result<RR, E>::Ok\<close> takes an
  \<^verbatim>\<open>RR&&\<close> and is given the \<^verbatim>\<open>return_type\<close> that \<^verbatim>\<open>get_return\<close> returns: C++ converts
  the payload to \<^verbatim>\<open>RR\<close>. The conversion \<open>conv\<close> is a parameter, taken not to throw,
  like moves and copies. The function \<open>f\<close> returns a \<^verbatim>\<open>Result<RR, E>\<close>.
\<close>

definition or_else_RR ::
  "('r, 'e) Result \<Rightarrow> ('r \<Rightarrow> 'rr) \<Rightarrow> ('r \<Rightarrow> 'w \<Rightarrow> ('x exn + ('rr, 'e) Result) \<times> 'w) \<Rightarrow> 'w
    \<Rightarrow> ('x exn + ('rr, 'e) Result) \<times> ('r, 'e) Result \<times> 'w" where
  "or_else_RR this conv f w =
     (if is_ok this
      then (case get_return this of
              Inl x \<Rightarrow> (Inl x, this, w)
            | Inr v \<Rightarrow> (Inr (Ok (conv v)), this, w))
      else (case get_return this of
              Inl x \<Rightarrow> (Inl x, this, w)
            | Inr v \<Rightarrow> (case f v w of (out, w') \<Rightarrow> (out, this, w'))))"

text \<open>
  The expression \<^verbatim>\<open>r.and_then(f1).and_then(f2)\<close>: the second call is made on the
  temporary the first one returns, and is not reached when the first one throws. The
  value of the expression is the last outcome and the world after it.
\<close>

definition and_then_twice ::
  "('r, 'e) Result \<Rightarrow> ('r \<Rightarrow> 'w \<Rightarrow> ('x exn + ('r1, 'e) Result) \<times> 'w)
    \<Rightarrow> ('r1 \<Rightarrow> 'w \<Rightarrow> ('x exn + ('r2, 'e) Result) \<times> 'w) \<Rightarrow> 'w
    \<Rightarrow> ('x exn + ('r2, 'e) Result) \<times> 'w" where
  "and_then_twice r f1 f2 w =
     (case and_then r f1 w of
        (Inl x, r', w1) \<Rightarrow> (Inl x, w1)
      | (Inr r1, r', w1) \<Rightarrow>
          (case and_then r1 f2 w1 of (out, r1', w2) \<Rightarrow> (out, w2)))"

text \<open>The same for a chain of any length, of functions of one type.\<close>

fun and_then_chain ::
  "('r, 'e) Result \<Rightarrow> ('r \<Rightarrow> 'w \<Rightarrow> ('x exn + ('r, 'e) Result) \<times> 'w) list \<Rightarrow> 'w
    \<Rightarrow> ('x exn + ('r, 'e) Result) \<times> 'w" where
  "and_then_chain r [] w = (Inr r, w)"
| "and_then_chain r (f # fs) w =
     (case and_then r f w of
        (Inl x, r', w1) \<Rightarrow> (Inl x, w1)
      | (Inr r1, r', w1) \<Rightarrow> and_then_chain r1 fs w1)"

subsection \<open>The TRY macro\<close>

text \<open>
  \<^verbatim>\<open>TRY(expr)\<close> is a statement expression inside a function that returns a Result:
  it evaluates \<^verbatim>\<open>expr\<close> into the local \<^verbatim>\<open>res\<close>, returns \<^verbatim>\<open>res\<close> from the enclosing
  function when \<^verbatim>\<open>res.is_error()\<close>, and has the value \<^verbatim>\<open>res.unwrap()\<close> otherwise.
  \<^verbatim>\<open>return res\<close> compiles only where \<^verbatim>\<open>res\<close> has the function's return type, so
  \<open>expr\<close> and the enclosing function produce the same type of Result. \<open>rest\<close> is the
  rest of the enclosing function's body, from the value of the macro on. The local
  \<^verbatim>\<open>res\<close> is not used after \<^verbatim>\<open>unwrap\<close>, so its state after the call is dropped.
\<close>

definition TRY ::
  "('w \<Rightarrow> ('e exn + ('r, 'e) Result) \<times> 'w)
    \<Rightarrow> ('r \<Rightarrow> 'w \<Rightarrow> ('e exn + ('r, 'e) Result) \<times> 'w)
    \<Rightarrow> 'w \<Rightarrow> ('e exn + ('r, 'e) Result) \<times> 'w" where
  "TRY expr rest w =
     (case expr w of
        (Inl x, w1) \<Rightarrow> (Inl x, w1)
      | (Inr res, w1) \<Rightarrow>
          (if is_error res then (Inr res, w1)
           else (case fst (unwrap res) of
                   Inl x \<Rightarrow> (Inl x, w1)
                 | Inr v \<Rightarrow> rest v w1)))"

subsection \<open>The state of an object\<close>

text \<open>
  An object is in a consistent state when its variant is not empty and the two queries
  agree with the payload it holds: exactly \<open>is_ok\<close> on a return value, exactly
  \<open>is_error\<close> on an error.
\<close>

definition valid_state :: "('r, 'e) Result \<Rightarrow> bool" where
  "valid_state this =
     (\<not> empty_variant (internal this) \<and>
      (case internal this of
         Held_return v \<Rightarrow> is_ok this \<and> \<not> is_error this
       | Held_error e \<Rightarrow> is_error this \<and> \<not> is_ok this))"

text \<open>The Result a combinator returns, when it returns one, is in a consistent state.\<close>

definition returns_valid :: "'x exn + ('r, 'e) Result \<Rightarrow> bool" where
  "returns_valid out = (case out of Inl x \<Rightarrow> True | Inr r \<Rightarrow> valid_state r)"


section \<open>Properties\<close>

subsection \<open>Facts about the accessors\<close>

lemma is_ok_Ok: "is_ok (Ok v)"
  by (simp add: is_ok_def Ok_def)

lemma is_error_Ok: "\<not> is_error (Ok v)"
  by (simp add: is_error_def Ok_def)

lemma is_ok_Err: "\<not> is_ok (Err e)"
  by (simp add: is_ok_def Err_def)

lemma is_error_Err: "is_error (Err e)"
  by (simp add: is_error_def Err_def)

lemma get_return_Ok: "get_return (Ok v) = Inr v"
  by (simp add: get_return_def expect_valid_state_def expect_return_def
      empty_variant_def is_error_Ok) (simp add: Ok_def)

lemma get_error_Err: "get_error (Err e) = Inr e"
  by (simp add: get_error_def expect_valid_state_def expect_error_def
      empty_variant_def is_ok_Err) (simp add: Err_def)

lemma get_return_Err:
  "get_return (Err e) = Inl (logic_error ''attempt to read the return of an error'')"
  by (simp add: get_return_def expect_valid_state_def expect_return_def
      empty_variant_def is_error_Err)

lemma Result_cases: "(\<exists>v. r = Ok v) \<or> (\<exists>e. r = Err e)"
proof (cases "internal r")
  case (Held_return v)
  then have "r = Ok v" by (simp add: Ok_def)
  then show ?thesis by blast
next
  case (Held_error e)
  then have "r = Err e" by (simp add: Err_def)
  then show ?thesis by blast
qed

lemma get_error_Ok:
  "get_error (Ok v) = Inl (logic_error ''attempt to read the error of a valid result'')"
  by (simp add: get_error_def expect_valid_state_def expect_error_def
      empty_variant_def is_ok_Ok)

lemma expect_valid_state_passes: "expect_valid_state r = Inr ()"
  by (simp add: expect_valid_state_def empty_variant_def)

lemma is_ok_neq_is_error: "is_ok r \<noteq> is_error r"
  by (cases "internal r") (simp_all add: is_ok_def is_error_def)

lemma valid_state_all: "valid_state r"
  by (cases "internal r")
    (simp_all add: valid_state_def empty_variant_def is_ok_def is_error_def)

lemma returns_valid_all: "returns_valid out"
  by (cases out) (simp_all add: returns_valid_def valid_state_all)

subsection \<open>Queries and the state of an object\<close>

text \<open>
  C9. Exactly one of \<^verbatim>\<open>is_ok()\<close> and \<^verbatim>\<open>is_error()\<close> is true of every Result:
  \<^verbatim>\<open>Ok(v)\<close> is ok and not an error, \<^verbatim>\<open>Err(e)\<close> is an error and not ok, and a Result
  is ok exactly when it holds a return value and an error exactly when it holds an
  error. Every operation keeps tag and payload consistent: the Result a combinator
  returns and the receiver after any call are in a consistent, non-empty state.
\<close>

theorem is_ok_is_error_exclusive:
  "is_ok (Ok v) \<and> \<not> is_error (Ok v)
   \<and> is_error (Err e) \<and> \<not> is_ok (Err e)
   \<and> is_ok r \<noteq> is_error r
   \<and> is_ok r = (\<exists>v. r = Ok v)
   \<and> is_error r = (\<exists>e. r = Err e)
   \<and> valid_state r
   \<and> returns_valid (fst (map_res r f w)) \<and> valid_state (fst (snd (map_res r f w)))
   \<and> returns_valid (fst (map_err r g w)) \<and> valid_state (fst (snd (map_err r g w)))
   \<and> returns_valid (fst (and_then r h w)) \<and> valid_state (fst (snd (and_then r h w)))
   \<and> returns_valid (fst (or_else r k w)) \<and> valid_state (fst (snd (or_else r k w)))
   \<and> valid_state (snd (unwrap r)) \<and> valid_state (snd (expect r oe))"
proof -
  have "is_ok r = (\<exists>v. r = Ok v)"
    using Result_cases [of r] by (auto simp add: is_ok_Ok is_ok_Err)
  moreover have "is_error r = (\<exists>e. r = Err e)"
    using Result_cases [of r] by (auto simp add: is_error_Ok is_error_Err)
  moreover note is_ok_neq_is_error [of r]
  ultimately show ?thesis
    by (simp add: is_ok_Ok is_error_Ok is_ok_Err is_error_Err valid_state_all
        returns_valid_all)
qed

subsection \<open>unwrap and expect\<close>

text \<open>
  C3. For every value \<open>v\<close>, \<^verbatim>\<open>Ok(v).unwrap()\<close> returns \<open>v\<close> and throws nothing; for
  every error \<open>e\<close>, \<^verbatim>\<open>Err(e).unwrap()\<close> throws, and the object thrown is \<open>e\<close> itself.
\<close>

theorem unwrap_Ok_Err:
  "fst (unwrap (Ok v)) = Inr v \<and> fst (unwrap (Err e)) = Inl (thrown e)"
  by (simp add: unwrap_def is_error_Ok is_error_Err get_return_Ok get_error_Err)

text \<open>
  C4. For every value \<open>v\<close> and replacement error \<open>oe\<close>, \<^verbatim>\<open>Ok(v).expect(oe)\<close> returns
  \<open>v\<close>; for every error \<open>e\<close>, \<^verbatim>\<open>Err(e).expect(oe)\<close> throws \<open>oe\<close>, and \<open>e\<close> is
  dropped.
\<close>

theorem expect_Ok_Err:
  "fst (expect (Ok v) oe) = Inr v \<and> fst (expect (Err e) oe) = Inl (thrown oe)"
  by (simp add: expect_def expect_valid_state_passes is_error_Ok is_error_Err
      get_return_Ok)

subsection \<open>map_res and map_err\<close>

text \<open>
  C5. \<^verbatim>\<open>Ok(v).map_res(f)\<close> calls \<open>f\<close> on \<open>v\<close> once and wraps what it returns in
  \<^verbatim>\<open>Ok\<close> (so for a function \<open>g\<close> without effects it is \<^verbatim>\<open>Ok(g(v))\<close>);
  \<^verbatim>\<open>Err(e).map_res(f)\<close> is \<^verbatim>\<open>Err(e)\<close> and \<open>f\<close> is not called: the outcome does not
  depend on \<open>f\<close> and the world is as before, whatever \<open>f\<close> would have done to it.
\<close>

theorem map_res_Ok_Err:
  "map_res (Ok v) f w =
     (case f v w of
        (Inl x, w') \<Rightarrow> (Inl x, Ok v, w')
      | (Inr y, w') \<Rightarrow> (Inr (Ok y), Ok v, w'))
   \<and> fst (map_res (Ok v) (\<lambda>a s. (Inr (g a), s)) w) = Inr (Ok (g v))
   \<and> map_res (Err e) f w = (Inr (Err e), Err e, w)"
  by (simp add: map_res_def is_error_Ok is_error_Err get_return_Ok get_error_Err)

text \<open>
  C6. \<^verbatim>\<open>Err(e).map_err(f)\<close> calls \<open>f\<close> on \<open>e\<close> once and wraps what it returns in
  \<^verbatim>\<open>Err\<close> (so for a function \<open>g\<close> without effects it is \<^verbatim>\<open>Err(g(e))\<close>);
  \<^verbatim>\<open>Ok(v).map_err(f)\<close> is \<^verbatim>\<open>Ok(v)\<close> and \<open>f\<close> is not called.
\<close>

theorem map_err_Err_Ok:
  "map_err (Err e) f w =
     (case f e w of
        (Inl x, w') \<Rightarrow> (Inl x, Err e, w')
      | (Inr y, w') \<Rightarrow> (Inr (Err y), Err e, w'))
   \<and> fst (map_err (Err e) (\<lambda>a s. (Inr (g a), s)) w) = Inr (Err (g e))
   \<and> map_err (Ok v) f w = (Inr (Ok v), Ok v, w)"
  by (simp add: map_err_def is_ok_Ok is_ok_Err get_return_Ok get_error_Err)

subsection \<open>and_then\<close>

lemma and_then_Ok: "and_then (Ok v) f w = (case f v w of (out, w') \<Rightarrow> (out, Ok v, w'))"
  by (simp add: and_then_def is_error_Ok get_return_Ok)

lemma and_then_Err: "and_then (Err e) f w = (Inr (Err e), Err e, w)"
  by (simp add: and_then_def is_error_Err get_error_Err)

lemma and_then_chain_Err: "and_then_chain (Err e) fs w = (Inr (Err e), w)"
  by (induction fs) (simp_all add: and_then_Err)

text \<open>
  C7. \<^verbatim>\<open>Ok(v).and_then(f)\<close> is what \<open>f\<close> returns on \<open>v\<close>, as it is;
  \<^verbatim>\<open>Err(e).and_then(f)\<close> is \<^verbatim>\<open>Err(e)\<close> and \<open>f\<close> is not called. A chain
  \<^verbatim>\<open>r.and_then(fa).and_then(fb)\<close> stops at the first \<^verbatim>\<open>Err\<close>: from \<^verbatim>\<open>Err(e)\<close> neither
  function is called, and when \<open>fa\<close> returns \<^verbatim>\<open>Err(e)\<close> the chain returns it with the
  world as \<open>fa\<close> left it, \<open>fb\<close> not called. The same holds for a chain of any length
  that starts from \<^verbatim>\<open>Err(e)\<close>.
\<close>

theorem and_then_short_circuit:
  "and_then (Ok v) f w = (case f v w of (out, w') \<Rightarrow> (out, Ok v, w'))
   \<and> and_then (Err e) f w = (Inr (Err e), Err e, w)
   \<and> and_then_twice (Err e) fa fb w = (Inr (Err e), w)
   \<and> (fst (fa v w) = Inr (Err e) \<longrightarrow>
        and_then_twice (Ok v) fa fb w = (Inr (Err e), snd (fa v w)))
   \<and> and_then_chain (Err e) fs w = (Inr (Err e), w)"
  by (auto simp add: and_then_Ok and_then_Err and_then_chain_Err and_then_twice_def
      split: prod.splits sum.splits)

theorem and_then_short_circuit_witness:
  "fst ((\<lambda>a s. (Inr (Err (7::int)), s @ [''fa''])) (3::int) [])
     = (Inr (Err 7) :: unit exn + (int, int) Result)
   \<and> and_then_twice (Ok (3::int)) (\<lambda>a s. (Inr (Err (7::int)), s @ [''fa'']))
        (\<lambda>b s. (Inr (Ok (b + 1)), s @ [''fb''])) []
      = ((Inr (Err 7) :: unit exn + (int, int) Result), [''fa''])"
  using and_then_short_circuit [where
      fa = "\<lambda>(a::int) s. ((Inr (Err (7::int)) :: unit exn + (int, int) Result), s @ [''fa''])"
      and v = "3::int" and w = "[]" and e = "7::int"
      and fb = "\<lambda>(b::int) s. ((Inr (Ok (b + 1)) :: unit exn + (int, int) Result), s @ [''fb''])"
      and f = "\<lambda>(a::int) s. ((Inr (Err (7::int)) :: unit exn + (int, int) Result), s @ [''fa''])"
      and fs = "[]"]
  by simp

subsection \<open>TRY\<close>

text \<open>
  C8. When the expression of \<^verbatim>\<open>TRY\<close> produces \<^verbatim>\<open>Err(e)\<close>, the enclosing function
  returns that \<^verbatim>\<open>Err(e)\<close> at once: the rest of its body is not run, and the world is as
  the expression left it. When the expression produces \<^verbatim>\<open>Ok(v)\<close>, the body goes on
  with the value \<open>v\<close>. So a function of two steps under \<^verbatim>\<open>TRY\<close> whose first step
  returns \<^verbatim>\<open>Err(e)\<close> returns \<^verbatim>\<open>Err(e)\<close>, and the second step has no effect on the
  world, whatever it is.
\<close>

theorem TRY_propagates:
  "(expr w = (Inr (Err e), w1) \<longrightarrow> TRY expr rest w = (Inr (Err e), w1))
   \<and> (expr w = (Inr (Ok v), w1) \<longrightarrow> TRY expr rest w = rest v w1)
   \<and> (step_a w = (Inr (Err e), w1) \<longrightarrow>
        TRY step_a (\<lambda>a. TRY (step_b a) (\<lambda>b. finish a b)) w = (Inr (Err e), w1))"
  by (simp add: TRY_def is_error_Err is_error_Ok unwrap_def get_return_Ok)

theorem TRY_propagates_witness:
  "(\<lambda>s. (Inr (Err (7::int)), s @ [''a''])) []
      = ((Inr (Err 7) :: int exn + (int, int) Result), [''a''])
   \<and> TRY (\<lambda>s. (Inr (Err (7::int)), s @ [''a''])) (\<lambda>a s. (Inr (Ok (a + 1)), s @ [''b''])) []
      = ((Inr (Err 7) :: int exn + (int, int) Result), [''a''])
   \<and> (\<lambda>s. (Inr (Ok (5::int)), s @ [''a''])) []
      = ((Inr (Ok 5) :: int exn + (int, int) Result), [''a''])
   \<and> TRY (\<lambda>s. (Inr (Ok (5::int)), s @ [''a''])) (\<lambda>a s. (Inr (Ok (a + 1)), s @ [''b''])) []
      = ((Inr (Ok 6) :: int exn + (int, int) Result), [''a'', ''b''])
   \<and> TRY (\<lambda>s. (Inr (Err (7::int)), s @ [''a'']))
        (\<lambda>a. TRY (\<lambda>s. (Inr (Ok (a + 1)), s @ [''b'']))
                (\<lambda>b s. (Inr (Ok (a + b)), s @ [''c'']))) []
      = ((Inr (Err 7) :: int exn + (int, int) Result), [''a''])"
  using TRY_propagates [where
      expr = "\<lambda>s. ((Inr (Err (7::int)) :: int exn + (int, int) Result), s @ [''a''])"
      and w = "[]" and e = "7::int" and ?w1.0 = "[''a'']" and v = "5::int"
      and rest = "\<lambda>(a::int) s. ((Inr (Ok (a + 1)) :: int exn + (int, int) Result), s @ [''b''])"
      and step_a = "\<lambda>s. ((Inr (Err (7::int)) :: int exn + (int, int) Result), s @ [''a''])"
      and step_b = "\<lambda>(a::int) s. ((Inr (Ok (a + 1)) :: int exn + (int, int) Result), s @ [''b''])"
      and finish = "\<lambda>(a::int) (b::int) s. ((Inr (Ok (a + b)) :: int exn + (int, int) Result), s @ [''c''])"]
    TRY_propagates [where
      expr = "\<lambda>s. ((Inr (Ok (5::int)) :: int exn + (int, int) Result), s @ [''a''])"
      and w = "[]" and e = "7::int" and ?w1.0 = "[''a'']" and v = "5::int"
      and rest = "\<lambda>(a::int) s. ((Inr (Ok (a + 1)) :: int exn + (int, int) Result), s @ [''b''])"
      and step_a = "\<lambda>s. ((Inr (Err (7::int)) :: int exn + (int, int) Result), s @ [''a''])"
      and step_b = "\<lambda>(a::int) s. ((Inr (Ok (a + 1)) :: int exn + (int, int) Result), s @ [''b''])"
      and finish = "\<lambda>(a::int) (b::int) s. ((Inr (Ok (a + b)) :: int exn + (int, int) Result), s @ [''c''])"]
  by (simp add: Ok_def Err_def)

subsection \<open>The receiver after a call\<close>

lemma self_map_res: "fst (snd (map_res r f w)) = r"
  by (simp add: map_res_def split: sum.splits prod.splits)

lemma self_map_err: "fst (snd (map_err r f w)) = r"
  by (simp add: map_err_def split: sum.splits prod.splits)

lemma self_and_then: "fst (snd (and_then r f w)) = r"
  by (simp add: and_then_def split: sum.splits prod.splits)

lemma self_unwrap: "snd (unwrap r) = r"
  by (simp add: unwrap_def split: sum.splits)

lemma self_expect: "snd (expect r oe) = r"
  by (simp add: expect_def split: sum.splits)

text \<open>
  C10. \<^verbatim>\<open>unwrap\<close> and \<^verbatim>\<open>expect\<close> on an \<^verbatim>\<open>Ok\<close>, and \<^verbatim>\<open>map_res\<close>, \<^verbatim>\<open>map_err\<close> and
  \<^verbatim>\<open>and_then\<close> on any Result, leave the receiver as it was: the same tag and the same
  payload. It answers the queries as before, and a second call on it has the outcome a
  call on the original has.
\<close>

theorem receiver_unchanged:
  "unwrap (Ok v) = (Inr v, Ok v)
   \<and> expect (Ok v) oe = (Inr v, Ok v)
   \<and> fst (snd (map_res r f w)) = r
   \<and> fst (snd (map_err r g w)) = r
   \<and> fst (snd (and_then r h w)) = r
   \<and> is_ok (fst (snd (map_res r f w))) = is_ok r
   \<and> is_error (fst (snd (map_res r f w))) = is_error r
   \<and> unwrap (snd (unwrap (Ok v))) = unwrap (Ok v)
   \<and> expect (snd (expect (Ok v) oe)) oe' = expect (Ok v) oe'
   \<and> unwrap (snd (expect (Ok v) oe)) = unwrap (Ok v)
   \<and> map_res (fst (snd (map_res r f w))) f' w' = map_res r f' w'
   \<and> map_err (fst (snd (map_err r g w))) g' w' = map_err r g' w'
   \<and> and_then (fst (snd (and_then r h w))) h' w' = and_then r h' w'
   \<and> unwrap (fst (snd (map_res r f w))) = unwrap r"
  by (simp add: self_map_res self_map_err self_and_then self_unwrap self_expect)
    (simp add: unwrap_def expect_def expect_valid_state_passes is_error_Ok get_return_Ok)

subsection \<open>or_else\<close>

lemma or_else_RR_same_type: "or_else_RR this (\<lambda>v. v) f w = or_else this f w"
  by (simp add: or_else_RR_def or_else_def)

text \<open>
  C1. \<^verbatim>\<open>Ok(v).or_else(f)\<close> returns \<^verbatim>\<open>Ok(v)\<close> (the payload converted to \<^verbatim>\<open>RR\<close> where
  \<^verbatim>\<open>RR\<close> is another type) and \<open>f\<close> is not called. On an \<^verbatim>\<open>Err\<close> the claim has \<open>f\<close>
  called, on what the success accessor gives. The code does not get that far: for every
  error \<open>e\<close>, every function \<open>f\<close> and every world, \<^verbatim>\<open>Err(e).or_else(f)\<close> evaluates
  \<^verbatim>\<open>get_return()\<close> first, the guard \<^verbatim>\<open>expect_return\<close> throws its
  \<^verbatim>\<open>std::logic_error\<close>, and the call ends with that exception, \<open>f\<close> not called and
  the world as before.
\<close>

theorem or_else_Err_throws:
  "or_else_RR (Ok v) conv f w = (Inr (Ok (conv v)), Ok v, w)
   \<and> or_else (Ok v) g w = (Inr (Ok v), Ok v, w)
   \<and> or_else_RR (Err e) conv f w =
       (Inl (logic_error ''attempt to read the return of an error''), Err e, w)
   \<and> or_else (Err e) g w =
       (Inl (logic_error ''attempt to read the return of an error''), Err e, w)"
  by (simp add: or_else_RR_def or_else_def is_ok_Ok is_ok_Err get_return_Ok
      get_return_Err)

subsection \<open>Exceptions of the combinators' own\<close>

text \<open>
  \<^verbatim>\<open>map_res\<close>, \<^verbatim>\<open>map_err\<close> and \<^verbatim>\<open>and_then\<close> throw only what the caller's function
  throws: the accessor each of them calls is the one its test of the tag allows.
\<close>

lemma map_res_raises_only_from_f:
  "fst (map_res r f w) = Inl x \<Longrightarrow> \<exists>v. r = Ok v \<and> fst (f v w) = Inl x"
  using Result_cases [of r]
  by (auto simp add: map_res_def is_error_Ok is_error_Err get_return_Ok get_error_Err
      split: sum.splits prod.splits)

lemma map_err_raises_only_from_f:
  "fst (map_err r f w) = Inl x \<Longrightarrow> \<exists>e. r = Err e \<and> fst (f e w) = Inl x"
  using Result_cases [of r]
  by (auto simp add: map_err_def is_ok_Ok is_ok_Err get_return_Ok get_error_Err
      split: sum.splits prod.splits)

lemma and_then_raises_only_from_f:
  "fst (and_then r f w) = Inl x \<Longrightarrow> \<exists>v. r = Ok v \<and> fst (f v w) = Inl x"
  using Result_cases [of r]
  by (auto simp add: and_then_def is_error_Ok is_error_Err get_return_Ok get_error_Err
      split: sum.splits prod.splits)

text \<open>
  C2 says the same of \<^verbatim>\<open>or_else\<close>. On an \<^verbatim>\<open>Err\<close> it does not hold: with a function
  that never throws, \<^verbatim>\<open>Err(1).or_else(f)\<close> throws the \<^verbatim>\<open>std::logic_error\<close> of
  \<^verbatim>\<open>expect_return\<close>, an exception that neither \<open>f\<close> nor the payload supplied.
\<close>

theorem or_else_raises_on_Err:
  "fst (or_else (Err (1::int)) (\<lambda>(a::int) (s::unit). (Inr (Ok (a * 2)), s)) ())
     = (Inl (logic_error ''attempt to read the return of an error'')
          :: unit exn + (int, int) Result)"
  by (simp add: or_else_def is_ok_Err get_return_Err)

end
